theory Spec2Isabelle
  imports Main "HOL-Library.Sublist"
begin

section \<open>Data model of \<^verbatim>\<open>src/graphGenerator.ts\<close>\<close>

text \<open>
  The module only copies the numeric fields (latency, cost) and prints the two numeric
  arguments of \<^verbatim>\<open>generateSVG\<close>; the number type is therefore a type parameter \<open>'n\<close>.
  Optional fields (\<^verbatim>\<open>latency?: number\<close>) are options: \<open>None\<close> is JavaScript's
  \<^verbatim>\<open>undefined\<close>. JavaScript strings are modelled as \<open>string\<close>.
  Several interfaces of the source share field names (\<^verbatim>\<open>id\<close>, \<^verbatim>\<open>label\<close>,
  \<^verbatim>\<open>latency\<close>, ...); the record fields carry a prefix to keep them apart.
\<close>

datatype NodeType = Agent | Start | End

text \<open>The string literal behind each member of \<^verbatim>\<open>'agent' | 'start' | 'end'\<close>.\<close>

fun type_str :: "NodeType \<Rightarrow> string" where
  "type_str Agent = ''agent''"
| "type_str Start = ''start''"
| "type_str End = ''end''"

record 'n GraphNode =
  node_id :: string
  node_label :: string
  node_type :: NodeType
  node_latency :: "'n option"
  node_cost :: "'n option"
  node_isBottleneck :: "bool option"

record GraphEdge =
  source :: string
  target :: string
  edge_label :: "string option"

record 'n GraphData =
  nodes :: "'n GraphNode list"
  edges :: "GraphEdge list"

record 'n WorkflowStep =
  step_id :: string
  agentId :: string
  agentName :: string
  dependencies :: "string list"
  inputTokens :: "'n option"
  outputTokens :: "'n option"

record 'n StepAnalysis =
  stepId :: string
  latency :: 'n
  cost :: 'n
  isBottleneck :: bool

record 'n Workflow =
  workflow_id :: string
  steps :: "'n WorkflowStep list"
  stepAnalysis :: "'n StepAnalysis list option"

section \<open>\<^verbatim>\<open>generateGraphData\<close>\<close>

text \<open>\<^verbatim>\<open>xs.push(x)\<close> appends at the end of the array.\<close>

definition push :: "'a list \<Rightarrow> 'a \<Rightarrow> 'a list" where
  "push xs x = xs @ [x]"

text \<open>
  \<^verbatim>\<open>new Map(entries)\<close> inserts the entries from left to right; a later entry with the same
  key replaces the earlier one. \<^verbatim>\<open>Map.get\<close> is application of the resulting map.
\<close>

definition new_Map :: "('k \<times> 'v) list \<Rightarrow> ('k \<rightharpoonup> 'v)" where
  "new_Map entries = fold (\<lambda>(k, v) m. m(k \<mapsto> v)) entries Map.empty"

text \<open>Line 51: \<^verbatim>\<open>workflow.stepAnalysis || []\<close>; an array, also an empty one, is truthy.\<close>

definition analysis_entries :: "'n Workflow \<Rightarrow> 'n StepAnalysis list" where
  "analysis_entries workflow = (case stepAnalysis workflow of None \<Rightarrow> [] | Some sa \<Rightarrow> sa)"

text \<open>Lines 50-52: \<^verbatim>\<open>new Map((workflow.stepAnalysis || []).map(s => [s.stepId, s]))\<close>.\<close>

definition stepAnalysisMap :: "'n Workflow \<Rightarrow> (string \<rightharpoonup> 'n StepAnalysis)" where
  "stepAnalysisMap workflow = new_Map (map (\<lambda>s. (stepId s, s)) (analysis_entries workflow))"

text \<open>Lines 55-59 and 76-80: the two synthetic nodes; their optional fields are not set.\<close>

definition start_node :: "'n GraphNode" where
  "start_node = \<lparr>node_id = ''start'', node_label = ''Start'', node_type = Start,
     node_latency = None, node_cost = None, node_isBottleneck = None\<rparr>"

definition end_node :: "'n GraphNode" where
  "end_node = \<lparr>node_id = ''end'', node_label = ''End'', node_type = End,
     node_latency = None, node_cost = None, node_isBottleneck = None\<rparr>"

text \<open>
  Lines 63-72, the body of the first loop: \<^verbatim>\<open>analysis?.latency\<close> is \<^verbatim>\<open>undefined\<close> when
  the map has no entry for the step.
\<close>

definition agent_node :: "(string \<rightharpoonup> 'n StepAnalysis) \<Rightarrow> 'n WorkflowStep \<Rightarrow> 'n GraphNode" where
  "agent_node m step =
     (let analysis = m (step_id step)
      in \<lparr>node_id = step_id step, node_label = agentName step, node_type = Agent,
          node_latency = map_option latency analysis,
          node_cost = map_option cost analysis,
          node_isBottleneck = map_option isBottleneck analysis\<rparr>)"

text \<open>Lines 62-73: one push per step.\<close>

definition add_agent_nodes ::
  "(string \<rightharpoonup> 'n StepAnalysis) \<Rightarrow> 'n WorkflowStep list \<Rightarrow> 'n GraphNode list \<Rightarrow> 'n GraphNode list" where
  "add_agent_nodes m ss ns = fold (\<lambda>step ns. push ns (agent_node m step)) ss ns"

text \<open>
  Lines 83-88: the set \<^verbatim>\<open>dependentSteps\<close>. The inner loop runs once per dependency of the
  step and adds \<^verbatim>\<open>step.id\<close> each time (the loop variable \<^verbatim>\<open>dep\<close> is not used).
\<close>

definition dependentSteps :: "'n WorkflowStep list \<Rightarrow> string set" where
  "dependentSteps ss =
     fold (\<lambda>step ds. fold (\<lambda>dep ds. insert (step_id step) ds) (dependencies step) ds) ss {}"

definition edge :: "string \<Rightarrow> string \<Rightarrow> GraphEdge" where
  "edge s t = \<lparr>source = s, target = t, edge_label = None\<rparr>"

text \<open>Lines 91-98: start edges.\<close>

definition connect_start :: "'n WorkflowStep list \<Rightarrow> GraphEdge list \<Rightarrow> GraphEdge list" where
  "connect_start ss es =
     fold (\<lambda>step es. if length (dependencies step) = 0
                      then push es (edge ''start'' (step_id step)) else es) ss es"

text \<open>Lines 101-108: dependency edges.\<close>

definition connect_dependencies :: "'n WorkflowStep list \<Rightarrow> GraphEdge list \<Rightarrow> GraphEdge list" where
  "connect_dependencies ss es =
     fold (\<lambda>step es. fold (\<lambda>dep es. push es (edge dep (step_id step))) (dependencies step) es)
       ss es"

text \<open>Lines 111-118: end edges.\<close>

definition connect_end ::
  "string set \<Rightarrow> 'n WorkflowStep list \<Rightarrow> GraphEdge list \<Rightarrow> GraphEdge list" where
  "connect_end ds ss es =
     fold (\<lambda>step es. if step_id step \<notin> ds
                      then push es (edge (step_id step) ''end'') else es) ss es"

definition generateGraphData :: "'n Workflow \<Rightarrow> 'n GraphData" where
  "generateGraphData workflow =
     (let m = stepAnalysisMap workflow;
          ns = push [] start_node;
          ns = add_agent_nodes m (steps workflow) ns;
          ns = push ns end_node;
          ds = dependentSteps (steps workflow);
          es = connect_start (steps workflow) [];
          es = connect_dependencies (steps workflow) es;
          es = connect_end ds (steps workflow) es
      in \<lparr>nodes = ns, edges = es\<rparr>)"

section \<open>\<^verbatim>\<open>generateSVG\<close>\<close>

text \<open>
  A template literal prints a number through JavaScript's number-to-string conversion,
  which is taken as the parameter \<open>num_str\<close>. The source's default arguments are
  \<^verbatim>\<open>width = 800\<close> and \<^verbatim>\<open>height = 600\<close>.
\<close>

subsection \<open>The calls into the layout library (lines 127-133)\<close>

text \<open>
  The library \<^verbatim>\<open>d3\<close> is not part of the repository; its calls are modelled from its
  documented behaviour, as far as they decide what \<^verbatim>\<open>generateSVG\<close> returns.
  \<^item> Line 127, \<^verbatim>\<open>d3.select('svg')\<close>, evaluates \<^verbatim>\<open>document.querySelector\<close>: where the
    environment has no global \<^verbatim>\<open>document\<close> the call throws a \<^verbatim>\<open>ReferenceError\<close>. Whether
    there is one is the parameter \<open>has_document\<close>.
  \<^item> Line 130, \<^verbatim>\<open>d3.forceSimulation(data.nodes)\<close>, adds an index, a position and a
    velocity to every node object and changes none of the fields of \<^verbatim>\<open>GraphNode\<close>.
  \<^item> Line 131 registers \<^verbatim>\<open>d3.forceLink(data.edges).id(d => d.id)\<close> with the simulation,
    which initialises the links: it builds a map from node identifier to node object and,
    edge by edge, replaces first \<^verbatim>\<open>edge.source\<close> and then \<^verbatim>\<open>edge.target\<close> by the node
    object with that identifier; it throws an \<^verbatim>\<open>Error\<close> naming the identifier when the map
    has no such node. The edge objects of \<^verbatim>\<open>data.edges\<close> are changed in place, so the loop
    of line 147 sees node objects where the identifiers were.
  \<^item> Lines 132-133 add two more forces that touch neither nodes nor edges.
\<close>

datatype js_error = ReferenceError | NodeNotFound string

text \<open>An edge after the links are initialised: its endpoints are node objects.\<close>

record 'n Link =
  link_source :: "'n GraphNode"
  link_target :: "'n GraphNode"
  link_label :: "string option"

text \<open>
  The library's \<^verbatim>\<open>new Map(nodes.map((d, i) => [id(d, i, nodes), d]))\<close>, with the accessor
  \<^verbatim>\<open>d => d.id\<close> of line 131.
\<close>

definition nodeById :: "'n GraphNode list \<Rightarrow> (string \<rightharpoonup> 'n GraphNode)" where
  "nodeById ns = new_Map (map (\<lambda>d. (node_id d, d)) ns)"

text \<open>The library's loop over the links, in order; the source is looked up first.\<close>

fun forceLink_initialize ::
  "(string \<rightharpoonup> 'n GraphNode) \<Rightarrow> GraphEdge list \<Rightarrow> js_error + 'n Link list" where
  "forceLink_initialize m [] = Inr []"
| "forceLink_initialize m (e # es) =
     (case m (source e) of
        None \<Rightarrow> Inl (NodeNotFound (source e))
      | Some s \<Rightarrow>
          (case m (target e) of
             None \<Rightarrow> Inl (NodeNotFound (target e))
           | Some t \<Rightarrow>
               (case forceLink_initialize m es of
                  Inl err \<Rightarrow> Inl err
                | Inr ls \<Rightarrow>
                    Inr (\<lparr>link_source = s, link_target = t, link_label = edge_label e\<rparr> # ls))))"

text \<open>
  A template literal prints an object through its \<^verbatim>\<open>toString\<close>, which for a plain object
  such as a node gives the same text whatever its fields are.
\<close>

definition object_str :: "'n GraphNode \<Rightarrow> string" where
  "object_str node = ''[object Object]''"

subsection \<open>The document\<close>

text \<open>Line 136.\<close>

definition svg_open :: "('n \<Rightarrow> string) \<Rightarrow> 'n \<Rightarrow> 'n \<Rightarrow> string" where
  \<open>svg_open num_str width height =
     ''<svg width="'' @ num_str width @ ''" height="'' @ num_str height @
     ''" xmlns="http://www.w3.org/2000/svg">''\<close>

text \<open>Lines 137-144: the style block, a template literal that spans eight lines.\<close>

definition svg_style :: string where
  \<open>svg_style =
     ''<style>\<newline>'' @
     ''    .node-agent { fill: #4a90d9; }\<newline>'' @
     ''    .node-start { fill: #27ae60; }\<newline>'' @
     ''    .node-end { fill: #e74c3c; }\<newline>'' @
     ''    .node-bottleneck { fill: #f39c12; }\<newline>'' @
     ''    .edge { stroke: #999; stroke-width: 2; }\<newline>'' @
     ''    .label { font-family: Arial; font-size: 12px; }\<newline>'' @
     ''  </style>''\<close>

text \<open>
  Line 148: \<^verbatim>\<open>${edge.source}\<close> and \<^verbatim>\<open>${edge.target}\<close> print the node objects that line 131
  has put there.
\<close>

definition svg_line :: "'n Link \<Rightarrow> string" where
  \<open>svg_line e =
     ''<line class="edge" x1="0" y1="0" x2="0" y2="0" data-source="'' @
     object_str (link_source e) @ ''" data-target="'' @ object_str (link_target e) @ ''"/>''\<close>

text \<open>
  Lines 153-154: the class name starts as \<^verbatim>\<open>node-${node.type}\<close> and is overwritten when
  \<^verbatim>\<open>node.isBottleneck\<close> is truthy (\<^verbatim>\<open>undefined\<close> and \<^verbatim>\<open>false\<close> are not).
\<close>

definition svg_className :: "'n GraphNode \<Rightarrow> string" where
  "svg_className node =
     (let className = ''node-'' @ type_str (node_type node)
      in if node_isBottleneck node = Some True then ''node-bottleneck'' else className)"

text \<open>Line 155.\<close>

definition svg_circle :: "string \<Rightarrow> 'n GraphNode \<Rightarrow> string" where
  \<open>svg_circle className node =
     ''<circle class="'' @ className @ ''" r="20" cx="0" cy="0" data-id="'' @ node_id node @
     ''"/>''\<close>

text \<open>Line 156.\<close>

definition svg_text :: "'n GraphNode \<Rightarrow> string" where
  \<open>svg_text node =
     ''<text class="label" x="0" y="35" text-anchor="middle">'' @ node_label node @
     ''</text>''\<close>

text \<open>
  Lines 126-162. The function returns the document, or throws what line 127 or line 131
  throws.
\<close>

definition generateSVG ::
  "bool \<Rightarrow> ('n \<Rightarrow> string) \<Rightarrow> 'n GraphData \<Rightarrow> 'n \<Rightarrow> 'n \<Rightarrow> js_error + string" where
  "generateSVG has_document num_str data width height =
     (if \<not> has_document then Inl ReferenceError
      else case forceLink_initialize (nodeById (nodes data)) (edges data) of
        Inl err \<Rightarrow> Inl err
      | Inr links \<Rightarrow>
          (let svgContent = svg_open num_str width height;
               svgContent = svgContent @ svg_style;
               svgContent = fold (\<lambda>e svgContent. svgContent @ svg_line e) links svgContent;
               svgContent = fold (\<lambda>node svgContent.
                              let className = svg_className node;
                                  svgContent = svgContent @ svg_circle className node
                              in svgContent @ svg_text node) (nodes data) svgContent
           in Inr (svgContent @ ''</svg>'')))"

section \<open>\<^verbatim>\<open>generateDot\<close>\<close>

text \<open>Lines 174-182: the attribute list of a node.\<close>

definition dot_attrs :: "'n GraphNode \<Rightarrow> string" where
  \<open>dot_attrs node =
     (let attrs = ''label="'' @ node_label node @ ''"''
      in if node_type node = Start then attrs @ '', shape=circle, style=filled, fillcolor=green''
         else if node_type node = End then attrs @ '', shape=circle, style=filled, fillcolor=red''
         else if node_isBottleneck node = Some True then attrs @ '', style=filled, fillcolor=orange''
         else attrs)\<close>

text \<open>Line 184.\<close>

definition dot_node_line :: "'n GraphNode \<Rightarrow> string" where
  \<open>dot_node_line node = ''  "'' @ node_id node @ ''" ['' @ dot_attrs node @ ''];\<newline>''\<close>

text \<open>Line 189.\<close>

definition dot_edge_line :: "GraphEdge \<Rightarrow> string" where
  \<open>dot_edge_line e = ''  "'' @ source e @ ''" -> "'' @ target e @ ''";\<newline>''\<close>

definition generateDot :: "'n GraphData \<Rightarrow> string" where
  "generateDot data =
     (let dot = ''digraph workflow {\<newline>'';
          dot = dot @ ''  rankdir=LR;\<newline>'';
          dot = dot @ ''  node [shape=box, style=rounded];\<newline>'';
          dot = fold (\<lambda>node dot. dot @ dot_node_line node) (nodes data) dot;
          dot = fold (\<lambda>e dot. dot @ dot_edge_line e) (edges data) dot
      in dot @ ''}\<newline>'')"

section \<open>Notions used to state the properties\<close>

text \<open>The number of occurrences of the two-character sequence \<^verbatim>\<open>->\<close> in a string.\<close>

fun arrows :: "string \<Rightarrow> nat" where
  "arrows [] = 0"
| "arrows [c] = 0"
| "arrows (a # b # cs) =
     (if a = CHR ''-'' \<and> b = CHR ''>'' then 1 else 0) + arrows (b # cs)"

text \<open>
  The occurrences of \<^verbatim>\<open>->\<close> inside the strings that \<^verbatim>\<open>generateDot\<close> interpolates: node
  identifiers and labels, edge sources and targets.
\<close>

definition interpolated_arrows :: "'n GraphData \<Rightarrow> nat" where
  "interpolated_arrows data =
     sum_list (map (\<lambda>n. arrows (node_id n) + arrows (node_label n)) (nodes data)) +
     sum_list (map (\<lambda>e. arrows (source e) + arrows (target e)) (edges data))"

text \<open>
  Text that is escaped for XML holds none of the characters \<^verbatim>\<open><\<close>, \<^verbatim>\<open>>\<close>, double quote
  and single quote, and an ampersand only at the start of one of the five predefined
  entities.
\<close>

definition xml_entities :: "string list" where
  "xml_entities = [''&lt;'', ''&gt;'', ''&amp;'', ''&quot;'', ''&apos;'']"

fun xml_escaped :: "string \<Rightarrow> bool" where
  "xml_escaped [] = True"
| "xml_escaped (c # cs) =
     (if c = CHR ''&'' then list_ex (\<lambda>ent. prefix ent (c # cs)) xml_entities \<and> xml_escaped cs
      else c \<noteq> CHR ''<'' \<and> c \<noteq> CHR ''>'' \<and> c \<noteq> CHR 0x22 \<and> c \<noteq> CHR 0x27 \<and> xml_escaped cs)"

text \<open>The last entry of an analysis list for a step identifier.\<close>

definition last_entry :: "'n StepAnalysis list \<Rightarrow> string \<Rightarrow> 'n StepAnalysis option" where
  "last_entry sa k = List.find (\<lambda>a. stepId a = k) (rev sa)"

text \<open>
  Decimal digits of a natural number: what JavaScript's number-to-string conversion gives
  for a non-negative integer below \<open>10 ^ 21\<close>. Used to print \<open>800\<close> and \<open>600\<close> in the
  examples.
\<close>

fun decimal :: "nat \<Rightarrow> string" where
  "decimal n =
     (if n < 10 then [''0123456789'' ! n]
      else decimal (n div 10) @ [''0123456789'' ! (n mod 10)])"

declare decimal.simps [simp del]

section \<open>Example workflows\<close>

text \<open>
  The example of the specification: step s1 (agent Fetcher, no dependency) and step s2
  (agent Parser, depending on s1), without analysis.
\<close>

definition fetcher_parser :: "nat Workflow" where
  "fetcher_parser =
     \<lparr>workflow_id = ''W'',
      steps = [\<lparr>step_id = ''s1'', agentId = ''a1'', agentName = ''Fetcher'',
                dependencies = [], inputTokens = None, outputTokens = None\<rparr>,
               \<lparr>step_id = ''s2'', agentId = ''a2'', agentName = ''Parser'',
                dependencies = [''s1''], inputTokens = None, outputTokens = None\<rparr>],
      stepAnalysis = None\<rparr>"

text \<open>The same workflow with an analysis entry for s1 only.\<close>

definition fetcher_analysis :: "nat StepAnalysis" where
  "fetcher_analysis = \<lparr>stepId = ''s1'', latency = 120, cost = 3, isBottleneck = True\<rparr>"

definition fetcher_parser_analysed :: "nat Workflow" where
  "fetcher_parser_analysed = fetcher_parser\<lparr>stepAnalysis := Some [fetcher_analysis]\<rparr>"

section \<open>The loops of \<^verbatim>\<open>generateGraphData\<close> as list expressions\<close>

lemma add_agent_nodes_eq: "add_agent_nodes m ss ns = ns @ map (agent_node m) ss"
  unfolding add_agent_nodes_def
  by (induction ss arbitrary: ns) (simp_all add: push_def)

lemma generateGraphData_nodes:
  "nodes (generateGraphData w) =
     start_node # map (agent_node (stepAnalysisMap w)) (steps w) @ [end_node]"
  by (simp add: generateGraphData_def Let_def add_agent_nodes_eq push_def)

lemma fold_push_inner: "fold (\<lambda>dep es. push es (f dep)) ds es = es @ map f ds"
  by (induction ds arbitrary: es) (simp_all add: push_def)

lemma connect_start_eq:
  "connect_start ss es =
     es @ map (\<lambda>s. edge ''start'' (step_id s)) (filter (\<lambda>s. dependencies s = []) ss)"
  unfolding connect_start_def
  by (induction ss arbitrary: es) (simp_all add: push_def)

lemma connect_dependencies_eq:
  "connect_dependencies ss es =
     es @ concat (map (\<lambda>s. map (\<lambda>d. edge d (step_id s)) (dependencies s)) ss)"
  unfolding connect_dependencies_def
  by (induction ss arbitrary: es) (simp_all add: fold_push_inner)

lemma connect_end_eq:
  "connect_end ds ss es =
     es @ map (\<lambda>s. edge (step_id s) ''end'') (filter (\<lambda>s. step_id s \<notin> ds) ss)"
  unfolding connect_end_def
  by (induction ss arbitrary: es) (simp_all add: push_def)

lemma fold_insert_same:
  "fold (\<lambda>dep ds. insert k ds) deps ds = (if deps = [] then ds else insert k ds)"
  by (induction deps arbitrary: ds) auto

lemma dependentSteps_fold:
  "fold (\<lambda>step ds. fold (\<lambda>dep ds. insert (step_id step) ds) (dependencies step) ds) ss ds0 =
     ds0 \<union> step_id ` {s \<in> set ss. dependencies s \<noteq> []}"
  by (induction ss arbitrary: ds0) (auto simp: fold_insert_same)

text \<open>The set holds the identifiers of the steps that have a dependency of their own.\<close>

lemma dependentSteps_eq:
  "dependentSteps ss = step_id ` {s \<in> set ss. dependencies s \<noteq> []}"
  unfolding dependentSteps_def by (simp add: dependentSteps_fold)

lemma generateGraphData_edges:
  "edges (generateGraphData w) =
     map (\<lambda>s. edge ''start'' (step_id s)) (filter (\<lambda>s. dependencies s = []) (steps w)) @
     concat (map (\<lambda>s. map (\<lambda>d. edge d (step_id s)) (dependencies s)) (steps w)) @
     map (\<lambda>s. edge (step_id s) ''end'')
       (filter (\<lambda>s. step_id s \<notin> dependentSteps (steps w)) (steps w))"
  by (simp add: generateGraphData_def Let_def connect_start_eq connect_dependencies_eq
      connect_end_eq)

section \<open>The analysis map\<close>

lemma fold_upd_map_of:
  "fold (\<lambda>(k, v) m. m(k \<mapsto> v)) xs m0 = m0 ++ map_of (rev xs)"
proof (induction xs arbitrary: m0)
  case Nil
  then show ?case by simp
next
  case (Cons p xs)
  obtain k v where p: "p = (k, v)" by (cases p)
  have "m0(k \<mapsto> v) ++ map_of (rev xs) = m0 ++ (map_of (rev xs @ [(k, v)]))"
    by (simp add: map_add_upd_left fun_eq_iff map_add_def split: option.splits)
  with Cons p show ?case by (simp add: fun_upd_def)
qed

lemma new_Map_eq: "new_Map xs = map_of (rev xs)"
  by (simp add: new_Map_def fold_upd_map_of)

lemma map_of_keyed_find:
  "map_of (map (\<lambda>a. (f a, a)) xs) k = List.find (\<lambda>a. f a = k) xs"
  by (induction xs) auto

text \<open>Looking a step up in the map gives the last entry of the list for it.\<close>

lemma stepAnalysisMap_eq: "stepAnalysisMap w k = last_entry (analysis_entries w) k"
  by (simp add: stepAnalysisMap_def new_Map_eq last_entry_def rev_map map_of_keyed_find)

lemma last_entry_None: "(\<forall>a \<in> set sa. stepId a \<noteq> k) \<Longrightarrow> last_entry sa k = None"
  by (simp add: last_entry_def find_None_iff)

lemma last_entry_distinct:
  "distinct (map stepId sa) \<Longrightarrow> a \<in> set sa \<Longrightarrow> last_entry sa (stepId a) = Some a"
proof -
  assume d: "distinct (map stepId sa)" and a: "a \<in> set sa"
  have "distinct (map fst (map (\<lambda>a. (stepId a, a)) (rev sa)))"
    using d by (simp add: comp_def rev_map[symmetric])
  moreover have "(stepId a, a) \<in> set (map (\<lambda>a. (stepId a, a)) (rev sa))"
    using a by auto
  ultimately have "map_of (map (\<lambda>a. (stepId a, a)) (rev sa)) (stepId a) = Some a"
    by (rule map_of_is_SomeI)
  then show ?thesis by (simp add: last_entry_def map_of_keyed_find)
qed

lemma agent_node_at:
  "i < length (steps w) \<Longrightarrow>
     nodes (generateGraphData w) ! Suc i = agent_node (stepAnalysisMap w) (steps w ! i)"
  by (simp add: generateGraphData_nodes nth_append)

lemma node_ids:
  "set (map node_id (nodes (generateGraphData w))) =
     insert ''start'' (insert ''end'' (step_id ` set (steps w)))"
  by (auto simp: generateGraphData_nodes start_node_def end_node_def agent_node_def Let_def)


section \<open>The loops of the renderers as list expressions\<close>

lemma fold_append_acc: "fold (\<lambda>x acc. acc @ f x) xs acc = acc @ concat (map f xs)"
  by (induction xs arbitrary: acc) simp_all

lemma svg_nodes_loop:
  "fold (\<lambda>node svgContent.
           let className = svg_className node;
               svgContent = svgContent @ svg_circle className node
           in svgContent @ svg_text node) ns acc =
     acc @ concat (map (\<lambda>n. svg_circle (svg_className n) n @ svg_text n) ns)"
  by (induction ns arbitrary: acc) (simp_all add: Let_def)

lemma svg_lines_loop:
  \<open>fold (\<lambda>e svgContent. svgContent @ svg_line e) links acc =
     acc @ concat (replicate (length links)
       ''<line class="edge" x1="0" y1="0" x2="0" y2="0" data-source="[object Object]" data-target="[object Object]"/>'')\<close>
  by (induction links arbitrary: acc) (simp_all add: svg_line_def object_str_def)

lemma generateSVG_eq:
  \<open>generateSVG has_document num_str data width height =
     (if \<not> has_document then Inl ReferenceError
      else case forceLink_initialize (nodeById (nodes data)) (edges data) of
        Inl err \<Rightarrow> Inl err
      | Inr links \<Rightarrow>
          Inr (svg_open num_str width height @ svg_style @
               concat (replicate (length links)
                 ''<line class="edge" x1="0" y1="0" x2="0" y2="0" data-source="[object Object]" data-target="[object Object]"/>'') @
               concat (map (\<lambda>n. svg_circle (svg_className n) n @ svg_text n) (nodes data)) @
               ''</svg>''))\<close>
  unfolding generateSVG_def svg_nodes_loop svg_lines_loop
  by (simp add: Let_def split: sum.splits)

lemma dom_nodeById: "dom (nodeById ns) = node_id ` set ns"
proof -
  have "dom (map_of (rev (map (\<lambda>d. (node_id d, d)) ns))) =
      fst ` set (rev (map (\<lambda>d. (node_id d, d)) ns))"
    by (rule dom_map_of_conv_image_fst)
  then show ?thesis by (simp add: nodeById_def new_Map_eq image_image)
qed

lemma forceLink_initialize_ok:
  "list_all (\<lambda>e. source e \<in> dom m \<and> target e \<in> dom m) es \<Longrightarrow>
     \<exists>links. forceLink_initialize m es = Inr links \<and> length links = length es"
  by (induction es) auto

lemma forceLink_initialize_err:
  "\<not> list_all (\<lambda>e. source e \<in> dom m \<and> target e \<in> dom m) es \<Longrightarrow>
     \<exists>i. forceLink_initialize m es = Inl (NodeNotFound i)"
proof (induction es)
  case Nil
  then show ?case by simp
next
  case (Cons e es)
  show ?case
  proof (cases "source e \<in> dom m \<and> target e \<in> dom m")
    case True
    with Cons obtain i where "forceLink_initialize m es = Inl (NodeNotFound i)" by auto
    with True show ?thesis by auto
  next
    case False
    then show ?thesis by (auto simp: domIff split: option.splits)
  qed
qed

lemma generateDot_eq:
  "generateDot data =
     ''digraph workflow {\<newline>'' @ ''  rankdir=LR;\<newline>'' @
     ''  node [shape=box, style=rounded];\<newline>'' @
     concat (map dot_node_line (nodes data)) @ concat (map dot_edge_line (edges data)) @
     ''}\<newline>''"
  unfolding generateDot_def Let_def fold_append_acc by simp

section \<open>Counting arrows\<close>

text \<open>An occurrence in \<open>xs @ ys\<close> lies in \<open>xs\<close>, in \<open>ys\<close>, or across the seam.\<close>

lemma arrows_append:
  "arrows (xs @ ys) = arrows xs + arrows ys +
     (if xs \<noteq> [] \<and> ys \<noteq> [] \<and> last xs = CHR ''-'' \<and> hd ys = CHR ''>'' then 1 else 0)"
proof (induction xs rule: arrows.induct)
  case 1
  then show ?case by simp
next
  case (2 c)
  then show ?case by (cases ys) simp_all
next
  case (3 a b cs)
  then show ?case by simp
qed

lemma arrows_snoc: "c \<noteq> CHR ''>'' \<Longrightarrow> arrows (xs @ [c]) = arrows xs"
  by (simp add: arrows_append)

lemma arrows_Cons: "c \<noteq> CHR ''-'' \<Longrightarrow> arrows (c # xs) = arrows xs"
  using arrows_append[of "[c]" xs] by simp

lemma arrows_split:
  "c \<noteq> CHR ''-'' \<Longrightarrow> c \<noteq> CHR ''>'' \<Longrightarrow> arrows (xs @ c # ys) = arrows xs + arrows ys"
  using arrows_append[of "xs @ [c]" ys] by (simp add: arrows_snoc)

lemma arrows_dot_attrs: "arrows (dot_attrs n) = arrows (node_label n)"
  by (simp add: dot_attrs_def Let_def arrows_Cons arrows_split)

lemma arrows_dot_node_line:
  "arrows (dot_node_line n) = arrows (node_id n) + arrows (node_label n)"
proof -
  have "arrows (dot_attrs n @ ''];\<newline>'') = arrows (dot_attrs n)"
    by (simp add: arrows_append)
  then show ?thesis
    by (simp add: dot_node_line_def arrows_Cons arrows_split arrows_dot_attrs)
qed

lemma arrows_dot_edge_line:
  "arrows (dot_edge_line e) = Suc (arrows (source e) + arrows (target e))"
  by (simp add: dot_edge_line_def arrows_Cons arrows_split)

lemma arrows_concat_lines:
  "(\<And>x. x \<in> set xs \<Longrightarrow> f x \<noteq> [] \<and> last (f x) \<noteq> CHR ''-'') \<Longrightarrow>
     arrows (concat (map f xs) @ rest) = sum_list (map (\<lambda>x. arrows (f x)) xs) + arrows rest"
proof (induction xs)
  case Nil
  then show ?case by simp
next
  case (Cons x xs)
  have "arrows (f x @ (concat (map f xs) @ rest)) =
      arrows (f x) + arrows (concat (map f xs) @ rest)"
    using Cons.prems[of x] by (simp add: arrows_append)
  with Cons show ?case by simp
qed

lemma arrows_generateDot:
  "arrows (generateDot data) = length (edges data) + interpolated_arrows data"
proof -
  have n: "\<And>x. x \<in> set (nodes data) \<Longrightarrow>
      dot_node_line x \<noteq> [] \<and> last (dot_node_line x) \<noteq> CHR ''-''"
    by (simp add: dot_node_line_def)
  have e: "\<And>x. x \<in> set (edges data) \<Longrightarrow>
      dot_edge_line x \<noteq> [] \<and> last (dot_edge_line x) \<noteq> CHR ''-''"
    by (simp add: dot_edge_line_def)
  have "arrows (generateDot data) =
      arrows (concat (map dot_node_line (nodes data)) @
        concat (map dot_edge_line (edges data)) @ ''}\<newline>'')"
    by (simp add: generateDot_eq arrows_Cons)
  also have "\<dots> = sum_list (map (\<lambda>x. arrows (dot_node_line x)) (nodes data)) +
      arrows (concat (map dot_edge_line (edges data)) @ ''}\<newline>'')"
    by (rule arrows_concat_lines[OF n])
  also have "arrows (concat (map dot_edge_line (edges data)) @ ''}\<newline>'') =
      sum_list (map (\<lambda>x. arrows (dot_edge_line x)) (edges data)) + arrows ''}\<newline>''"
    by (rule arrows_concat_lines[OF e])
  finally show ?thesis
    by (simp add: arrows_dot_node_line arrows_dot_edge_line interpolated_arrows_def
        sum_list_addf sum_list_Suc)
qed

lemma prefix_generateDot: "prefix ''digraph workflow {'' (generateDot data)"
  by (simp add: generateDot_eq)

lemma suffix_generateDot: "suffix ''}\<newline>'' (generateDot data)"
  unfolding generateDot_def Let_def by (rule suffixI) (rule refl)

lemma interpolated_arrows_builder:
  assumes "\<forall>s \<in> set (steps w). arrows (step_id s) = 0 \<and> arrows (agentName s) = 0
      \<and> (\<forall>d \<in> set (dependencies s). arrows d = 0)"
  shows "interpolated_arrows (generateGraphData w) = 0"
proof -
  have "\<forall>n \<in> set (nodes (generateGraphData w)).
      arrows (node_id n) + arrows (node_label n) = 0"
    using assms
    by (auto simp: generateGraphData_nodes start_node_def end_node_def agent_node_def Let_def)
  moreover have "\<forall>e \<in> set (edges (generateGraphData w)).
      arrows (source e) + arrows (target e) = 0"
    using assms by (auto simp: generateGraphData_edges edge_def)
  ultimately show ?thesis
    by (simp add: interpolated_arrows_def sum_list_eq_0_iff)
qed

section \<open>The renderers on single nodes\<close>

lemma suffix_last: "suffix xs ys \<Longrightarrow> xs \<noteq> [] \<Longrightarrow> last ys = last xs"
  by (auto simp: suffix_def)

text \<open>In the DOT attributes the orange fill is reached for the agent variant only.\<close>

lemma dot_orange_agent:
  "suffix '', style=filled, fillcolor=orange'' (dot_attrs n) \<Longrightarrow> node_type n = Agent"
proof (cases "node_type n")
  case Agent
  then show ?thesis by simp
next
  case Start
  assume "suffix '', style=filled, fillcolor=orange'' (dot_attrs n)"
  from suffix_last[OF this] Start show ?thesis by (simp add: dot_attrs_def)
next
  case End
  assume "suffix '', style=filled, fillcolor=orange'' (dot_attrs n)"
  from suffix_last[OF this] End show ?thesis by (simp add: dot_attrs_def)
qed

lemma svg_className_unflagged:
  "node_isBottleneck n = None \<Longrightarrow> svg_className n \<noteq> ''node-bottleneck''"
  by (cases "node_type n") (simp_all add: svg_className_def)

lemma builder_synthetic_nodes:
  "n \<in> set (nodes (generateGraphData w)) \<Longrightarrow> node_type n \<noteq> Agent \<Longrightarrow>
     (n = start_node \<or> n = end_node) \<and> node_latency n = None \<and> node_cost n = None \<and>
     node_isBottleneck n = None"
  by (auto simp: generateGraphData_nodes start_node_def end_node_def agent_node_def Let_def)

section \<open>Nodes of the graph\<close>

text \<open>
  C4: for a workflow with N steps the node list has length N + 2; it is the start node,
  then one agent node per step in input order (identifier of the step, label the agent
  name, variant agent), then the end node.
\<close>

theorem generateGraphData_node_order:
  "nodes (generateGraphData w) =
     start_node # map (agent_node (stepAnalysisMap w)) (steps w) @ [end_node]
   \<and> length (nodes (generateGraphData w)) = length (steps w) + 2
   \<and> hd (nodes (generateGraphData w)) = start_node
   \<and> last (nodes (generateGraphData w)) = end_node
   \<and> map node_id (nodes (generateGraphData w)) =
       ''start'' # map step_id (steps w) @ [''end'']
   \<and> map node_label (nodes (generateGraphData w)) =
       ''Start'' # map agentName (steps w) @ [''End'']
   \<and> map node_type (nodes (generateGraphData w)) =
       Start # replicate (length (steps w)) Agent @ [End]"
  by (simp add: generateGraphData_nodes start_node_def end_node_def agent_node_def Let_def
      comp_def map_replicate_const)

text \<open>
  C6: the agent node of the step at index \<open>i\<close> is the node at index \<open>i + 1\<close>. It carries
  the latency, cost and bottleneck flag of the last entry of the analysis list whose
  \<^verbatim>\<open>stepId\<close> is the identifier of the step; when the \<^verbatim>\<open>stepId\<close>s of the list are pairwise
  distinct, that is the entry for the step; when the list has no entry for the step, the
  three fields are absent.
\<close>

theorem generateGraphData_analysis_fields:
  "i < length (steps w) \<Longrightarrow>
     node_id (nodes (generateGraphData w) ! Suc i) = step_id (steps w ! i)
   \<and> (last_entry (analysis_entries w) (step_id (steps w ! i)) = Some a \<longrightarrow>
        node_latency (nodes (generateGraphData w) ! Suc i) = Some (latency a)
      \<and> node_cost (nodes (generateGraphData w) ! Suc i) = Some (cost a)
      \<and> node_isBottleneck (nodes (generateGraphData w) ! Suc i) = Some (isBottleneck a))
   \<and> (distinct (map stepId (analysis_entries w)) \<and> a \<in> set (analysis_entries w)
        \<and> stepId a = step_id (steps w ! i) \<longrightarrow>
        node_latency (nodes (generateGraphData w) ! Suc i) = Some (latency a)
      \<and> node_cost (nodes (generateGraphData w) ! Suc i) = Some (cost a)
      \<and> node_isBottleneck (nodes (generateGraphData w) ! Suc i) = Some (isBottleneck a))
   \<and> ((\<forall>b \<in> set (analysis_entries w). stepId b \<noteq> step_id (steps w ! i)) \<longrightarrow>
        node_latency (nodes (generateGraphData w) ! Suc i) = None
      \<and> node_cost (nodes (generateGraphData w) ! Suc i) = None
      \<and> node_isBottleneck (nodes (generateGraphData w) ! Suc i) = None)"
proof -
  assume i: "i < length (steps w)"
  let ?n = "nodes (generateGraphData w) ! Suc i"
  let ?k = "step_id (steps w ! i)"
  have n: "?n = agent_node (last_entry (analysis_entries w)) (steps w ! i)"
    using agent_node_at[OF i] by (simp add: agent_node_def stepAnalysisMap_eq)
  have 1: "node_id ?n = ?k" by (simp add: n agent_node_def Let_def)
  have 2: "node_latency ?n = Some (latency a) \<and> node_cost ?n = Some (cost a)
      \<and> node_isBottleneck ?n = Some (isBottleneck a)"
    if "last_entry (analysis_entries w) ?k = Some a"
    using that by (simp add: n agent_node_def Let_def)
  have 3: "last_entry (analysis_entries w) ?k = Some a"
    if "distinct (map stepId (analysis_entries w))" "a \<in> set (analysis_entries w)"
       "stepId a = ?k"
    using last_entry_distinct[OF that(1,2)] that(3) by simp
  have 4: "node_latency ?n = None \<and> node_cost ?n = None \<and> node_isBottleneck ?n = None"
    if "\<forall>b \<in> set (analysis_entries w). stepId b \<noteq> ?k"
    using last_entry_None[OF that] by (simp add: n agent_node_def Let_def)
  show ?thesis using 1 2 3 4 by blast
qed

text \<open>
  In the analysed example the node of s1 (index 0) carries the values of its entry, and
  the node of s2 (index 1), which has no entry, carries none.
\<close>

theorem generateGraphData_analysis_fields_witness:
  "0 < length (steps fetcher_parser_analysed)
   \<and> last_entry (analysis_entries fetcher_parser_analysed)
        (step_id (steps fetcher_parser_analysed ! 0)) = Some fetcher_analysis
   \<and> distinct (map stepId (analysis_entries fetcher_parser_analysed))
   \<and> fetcher_analysis \<in> set (analysis_entries fetcher_parser_analysed)
   \<and> node_id (nodes (generateGraphData fetcher_parser_analysed) ! Suc 0) = ''s1''
   \<and> node_latency (nodes (generateGraphData fetcher_parser_analysed) ! Suc 0) = Some 120
   \<and> node_cost (nodes (generateGraphData fetcher_parser_analysed) ! Suc 0) = Some 3
   \<and> node_isBottleneck (nodes (generateGraphData fetcher_parser_analysed) ! Suc 0) = Some True
   \<and> 1 < length (steps fetcher_parser_analysed)
   \<and> list_all (\<lambda>b. stepId b \<noteq> step_id (steps fetcher_parser_analysed ! 1))
        (analysis_entries fetcher_parser_analysed)
   \<and> node_id (nodes (generateGraphData fetcher_parser_analysed) ! Suc 1) = ''s2''
   \<and> node_latency (nodes (generateGraphData fetcher_parser_analysed) ! Suc 1) = None
   \<and> node_cost (nodes (generateGraphData fetcher_parser_analysed) ! Suc 1) = None
   \<and> node_isBottleneck (nodes (generateGraphData fetcher_parser_analysed) ! Suc 1) = None"
  using generateGraphData_analysis_fields [of 0 fetcher_parser_analysed fetcher_analysis]
    generateGraphData_analysis_fields [of 1 fetcher_parser_analysed fetcher_analysis]
  by (simp add: fetcher_parser_analysed_def fetcher_parser_def fetcher_analysis_def
      analysis_entries_def last_entry_def)

text \<open>
  With two entries for the same step the node carries the values of the second one; the
  first entry, although its \<^verbatim>\<open>stepId\<close> is the identifier of the step, is overwritten in
  the map.
\<close>

theorem generateGraphData_duplicate_analysis_counterexample:
  "node_latency (nodes (generateGraphData
       \<lparr>workflow_id = ''W'',
        steps = [\<lparr>step_id = ''s1'', agentId = ''a1'', agentName = ''Fetcher'',
                  dependencies = [], inputTokens = None, outputTokens = None\<rparr>],
        stepAnalysis = Some [\<lparr>stepId = ''s1'', latency = 1 :: nat, cost = 1,
                               isBottleneck = True\<rparr>,
                             \<lparr>stepId = ''s1'', latency = 2, cost = 2,
                               isBottleneck = False\<rparr>]\<rparr>) ! 1) = Some 2
   \<and> node_cost (nodes (generateGraphData
       \<lparr>workflow_id = ''W'',
        steps = [\<lparr>step_id = ''s1'', agentId = ''a1'', agentName = ''Fetcher'',
                  dependencies = [], inputTokens = None, outputTokens = None\<rparr>],
        stepAnalysis = Some [\<lparr>stepId = ''s1'', latency = 1 :: nat, cost = 1,
                               isBottleneck = True\<rparr>,
                             \<lparr>stepId = ''s1'', latency = 2, cost = 2,
                               isBottleneck = False\<rparr>]\<rparr>) ! 1) = Some 2
   \<and> node_isBottleneck (nodes (generateGraphData
       \<lparr>workflow_id = ''W'',
        steps = [\<lparr>step_id = ''s1'', agentId = ''a1'', agentName = ''Fetcher'',
                  dependencies = [], inputTokens = None, outputTokens = None\<rparr>],
        stepAnalysis = Some [\<lparr>stepId = ''s1'', latency = 1 :: nat, cost = 1,
                               isBottleneck = True\<rparr>,
                             \<lparr>stepId = ''s1'', latency = 2, cost = 2,
                               isBottleneck = False\<rparr>]\<rparr>) ! 1) = Some False"
  by (simp add: generateGraphData_def Let_def add_agent_nodes_def agent_node_def
      stepAnalysisMap_def analysis_entries_def new_Map_def push_def)

text \<open>
  C10: the first node is the start node and the last node is the end node; every node of
  the graph that is not an agent node is one of the two, carries no latency, no cost and
  no bottleneck flag, and gets the bottleneck styling of neither renderer (the class
  \<^verbatim>\<open>node-bottleneck\<close>, the orange fill).
\<close>

theorem generateGraphData_synthetic_nodes_plain:
  "hd (nodes (generateGraphData w)) = start_node
   \<and> last (nodes (generateGraphData w)) = end_node
   \<and> (\<forall>n \<in> set (nodes (generateGraphData w)). node_type n \<noteq> Agent \<longrightarrow>
        (n = start_node \<or> n = end_node)
      \<and> node_latency n = None \<and> node_cost n = None \<and> node_isBottleneck n = None
      \<and> svg_className n \<noteq> ''node-bottleneck''
      \<and> \<not> suffix '', style=filled, fillcolor=orange'' (dot_attrs n))"
  using builder_synthetic_nodes[of _ w] dot_orange_agent svg_className_unflagged
  by (auto simp: generateGraphData_nodes)

text \<open>In the analysed example, where s1 is a bottleneck, the start node is plain.\<close>

theorem generateGraphData_synthetic_nodes_plain_witness:
  "start_node \<in> set (nodes (generateGraphData fetcher_parser_analysed))
   \<and> node_type (start_node :: nat GraphNode) \<noteq> Agent
   \<and> node_latency (start_node :: nat GraphNode) = None
   \<and> node_cost (start_node :: nat GraphNode) = None
   \<and> node_isBottleneck (start_node :: nat GraphNode) = None
   \<and> svg_className (start_node :: nat GraphNode) \<noteq> ''node-bottleneck''
   \<and> \<not> suffix '', style=filled, fillcolor=orange'' (dot_attrs (start_node :: nat GraphNode))"
proof -
  have m: "start_node \<in> set (nodes (generateGraphData fetcher_parser_analysed))"
    by (simp add: generateGraphData_nodes)
  have t: "node_type (start_node :: nat GraphNode) \<noteq> Agent"
    by (simp add: start_node_def)
  from generateGraphData_synthetic_nodes_plain [of fetcher_parser_analysed] m t
  show ?thesis by blast
qed

section \<open>Edges of the graph\<close>

text \<open>
  C1: the workflow with the steps s1 (agent Fetcher, no dependency) and s2 (agent Parser,
  depending on s1) and no analysis. The nodes are start, s1, s2, end. The edges are
  start \<rightarrow> s1, s1 \<rightarrow> s2 and s1 \<rightarrow> end: the end edge leaves s1, the step without a
  dependency, and s2, the step nothing depends on, has none.
\<close>

theorem generateGraphData_fetcher_parser:
  "generateGraphData
     \<lparr>workflow_id = ''W'',
      steps = [\<lparr>step_id = ''s1'', agentId = ''a1'', agentName = ''Fetcher'',
                dependencies = [], inputTokens = None, outputTokens = None\<rparr>,
               \<lparr>step_id = ''s2'', agentId = ''a2'', agentName = ''Parser'',
                dependencies = [''s1''], inputTokens = None, outputTokens = None\<rparr>],
      stepAnalysis = (None :: nat StepAnalysis list option)\<rparr>
   = \<lparr>nodes = [start_node,
               \<lparr>node_id = ''s1'', node_label = ''Fetcher'', node_type = Agent,
                node_latency = None, node_cost = None, node_isBottleneck = None\<rparr>,
               \<lparr>node_id = ''s2'', node_label = ''Parser'', node_type = Agent,
                node_latency = None, node_cost = None, node_isBottleneck = None\<rparr>,
               end_node],
      edges = [edge ''start'' ''s1'', edge ''s1'' ''s2'', edge ''s1'' ''end'']\<rparr>"
  by (simp add: generateGraphData_def Let_def add_agent_nodes_def agent_node_def
      stepAnalysisMap_def analysis_entries_def new_Map_def connect_start_def
      connect_dependencies_def connect_end_def dependentSteps_def push_def)

text \<open>
  C2: in the chain a, b (depending on a), c (depending on b) the set computed first is
  {b, c}, the steps that have a dependency, not {a, b}, the steps that are a dependency of
  another step. The only end edge is a \<rightarrow> end; c, which is in no dependency list, has no
  edge to end.
\<close>

theorem generateGraphData_chain_end_edges:
  "dependentSteps
     [\<lparr>step_id = ''a'', agentId = ''x'', agentName = ''A'', dependencies = [],
       inputTokens = None, outputTokens = (None :: nat option)\<rparr>,
      \<lparr>step_id = ''b'', agentId = ''x'', agentName = ''B'', dependencies = [''a''],
       inputTokens = None, outputTokens = None\<rparr>,
      \<lparr>step_id = ''c'', agentId = ''x'', agentName = ''C'', dependencies = [''b''],
       inputTokens = None, outputTokens = None\<rparr>] = {''b'', ''c''}
   \<and> edges (generateGraphData
       \<lparr>workflow_id = ''chain'',
        steps = [\<lparr>step_id = ''a'', agentId = ''x'', agentName = ''A'', dependencies = [],
                  inputTokens = None, outputTokens = None\<rparr>,
                 \<lparr>step_id = ''b'', agentId = ''x'', agentName = ''B'',
                  dependencies = [''a''], inputTokens = None, outputTokens = None\<rparr>,
                 \<lparr>step_id = ''c'', agentId = ''x'', agentName = ''C'',
                  dependencies = [''b''], inputTokens = None, outputTokens = None\<rparr>],
        stepAnalysis = (None :: nat StepAnalysis list option)\<rparr>)
     = [edge ''start'' ''a'', edge ''a'' ''b'', edge ''b'' ''c'', edge ''a'' ''end'']"
  by (simp add: generateGraphData_def Let_def connect_start_def connect_dependencies_def
      connect_end_def dependentSteps_def push_def insert_commute)


text \<open>
  C3: every edge's target is the identifier of a node of the graph; every edge's source
  is the identifier of a node of the graph, or it is a dependency, listed by the step the
  edge points to, that is the identifier of no step.
\<close>

theorem generateGraphData_edge_endpoints:
  "e \<in> set (edges (generateGraphData w)) \<Longrightarrow>
     target e \<in> set (map node_id (nodes (generateGraphData w)))
   \<and> (source e \<in> set (map node_id (nodes (generateGraphData w)))
      \<or> (\<exists>s \<in> set (steps w). step_id s = target e \<and> source e \<in> set (dependencies s)
            \<and> source e \<notin> step_id ` set (steps w)))"
  unfolding node_ids
  by (auto simp: generateGraphData_edges edge_def)

theorem generateGraphData_edge_endpoints_witness:
  "edge ''s1'' ''s2'' \<in> set (edges (generateGraphData fetcher_parser))
   \<and> target (edge ''s1'' ''s2'') \<in> set (map node_id (nodes (generateGraphData fetcher_parser)))
   \<and> (source (edge ''s1'' ''s2'') \<in> set (map node_id (nodes (generateGraphData fetcher_parser)))
      \<or> (\<exists>s \<in> set (steps fetcher_parser). step_id s = target (edge ''s1'' ''s2'')
            \<and> source (edge ''s1'' ''s2'') \<in> set (dependencies s)
            \<and> source (edge ''s1'' ''s2'') \<notin> step_id ` set (steps fetcher_parser)))"
proof -
  have m: "edge ''s1'' ''s2'' \<in> set (edges (generateGraphData fetcher_parser))"
    by (simp add: generateGraphData_edges fetcher_parser_def)
  from generateGraphData_edge_endpoints [OF m] m show ?thesis by blast
qed

text \<open>
  A step that depends on an identifier that names no step: the edge ghost \<rightarrow> s1 is in
  the graph and no node has the identifier ghost.
\<close>

theorem generateGraphData_dangling_edge_counterexample:
  "edge ''ghost'' ''s1'' \<in> set (edges (generateGraphData
       \<lparr>workflow_id = ''W'',
        steps = [\<lparr>step_id = ''s1'', agentId = ''a1'', agentName = ''Fetcher'',
                  dependencies = [''ghost''], inputTokens = None, outputTokens = None\<rparr>],
        stepAnalysis = (None :: nat StepAnalysis list option)\<rparr>))
   \<and> source (edge ''ghost'' ''s1'') \<notin> set (map node_id (nodes (generateGraphData
       \<lparr>workflow_id = ''W'',
        steps = [\<lparr>step_id = ''s1'', agentId = ''a1'', agentName = ''Fetcher'',
                  dependencies = [''ghost''], inputTokens = None, outputTokens = None\<rparr>],
        stepAnalysis = (None :: nat StepAnalysis list option)\<rparr>)))"
  by (simp add: generateGraphData_def Let_def add_agent_nodes_def agent_node_def
      start_node_def end_node_def connect_start_def connect_dependencies_def connect_end_def
      dependentSteps_def push_def edge_def)




section \<open>The SVG renderer\<close>

text \<open>
  C7: a graph whose only node is a start node with a true bottleneck flag, where a
  document exists. The circle is drawn with the class \<^verbatim>\<open>node-bottleneck\<close>, not
  \<^verbatim>\<open>node-start\<close>: line 154 overwrites the class whatever the variant. For the same node
  the DOT renderer tests the variant first and gives the green fill of a start node.
\<close>

theorem generateSVG_flagged_start:
  \<open>generateSVG True decimal
     \<lparr>nodes = [\<lparr>node_id = ''start'', node_label = ''Start'', node_type = Start,
                node_latency = None, node_cost = None, node_isBottleneck = Some True\<rparr>],
      edges = []\<rparr> 800 600
   = Inr (''<svg width="800" height="600" xmlns="http://www.w3.org/2000/svg">'' @ svg_style @
     ''<circle class="node-bottleneck" r="20" cx="0" cy="0" data-id="start"/>'' @
     ''<text class="label" x="0" y="35" text-anchor="middle">Start</text></svg>'')
   \<and> dot_attrs \<lparr>node_id = ''start'', node_label = ''Start'', node_type = Start,
        node_latency = None, node_cost = (None :: nat option), node_isBottleneck = Some True\<rparr>
     = ''label="Start", shape=circle, style=filled, fillcolor=green''\<close>
proof -
  have "decimal 800 = ''800''" "decimal 600 = ''600''" by code_simp+
  then show ?thesis
    by (simp add: generateSVG_def Let_def svg_open_def svg_className_def svg_circle_def
        svg_text_def dot_attrs_def)
qed

text \<open>
  C8: \<^verbatim>\<open>generateSVG\<close> returns a document exactly when a document object exists and every
  edge endpoint is the identifier of a node. In the document the label of each node stands
  between the tags of its text element as it is; no character of it is replaced.
\<close>

theorem generateSVG_label_verbatim:
  \<open>(has_document \<and> list_all (\<lambda>e. source e \<in> node_id ` set (nodes data)
                                  \<and> target e \<in> node_id ` set (nodes data)) (edges data) \<longrightarrow>
      generateSVG has_document num_str data width height =
        Inr (svg_open num_str width height @ svg_style @
             concat (replicate (length (edges data))
               ''<line class="edge" x1="0" y1="0" x2="0" y2="0" data-source="[object Object]" data-target="[object Object]"/>'') @
             concat (map (\<lambda>n. svg_circle (svg_className n) n @
                               ''<text class="label" x="0" y="35" text-anchor="middle">'' @
                               node_label n @ ''</text>'') (nodes data)) @
             ''</svg>''))
   \<and> (\<not> has_document \<longrightarrow>
        generateSVG has_document num_str data width height = Inl ReferenceError)
   \<and> (has_document \<and> \<not> list_all (\<lambda>e. source e \<in> node_id ` set (nodes data)
                                  \<and> target e \<in> node_id ` set (nodes data)) (edges data) \<longrightarrow>
        (\<exists>i. generateSVG has_document num_str data width height = Inl (NodeNotFound i)))\<close>
proof -
  let ?ok = "list_all (\<lambda>e. source e \<in> node_id ` set (nodes data)
      \<and> target e \<in> node_id ` set (nodes data)) (edges data)"
  have 1: ?thesis if "\<not> has_document"
    using that by (simp add: generateSVG_eq)
  have 2: ?thesis if h: "has_document" and ok: "?ok"
  proof -
    from ok obtain links
      where l: "forceLink_initialize (nodeById (nodes data)) (edges data) = Inr links"
        and n: "length links = length (edges data)"
      using forceLink_initialize_ok[of "nodeById (nodes data)" "edges data"]
      by (auto simp: dom_nodeById)
    show ?thesis
      using h ok
      by (simp add: generateSVG_eq l n svg_text_def)
  qed
  have 3: ?thesis if h: "has_document" and bad: "\<not> ?ok"
  proof -
    from bad obtain i
      where "forceLink_initialize (nodeById (nodes data)) (edges data) = Inl (NodeNotFound i)"
      using forceLink_initialize_err[of "nodeById (nodes data)" "edges data"]
      by (auto simp: dom_nodeById)
    then show ?thesis using h bad by (simp add: generateSVG_eq)
  qed
  from 1 2 3 show ?thesis by blast
qed

text \<open>
  A graph with the two synthetic nodes and the edge start \<rightarrow> end: with a document the
  line element holds the text of two objects and the labels stand as they are; without a
  document the call throws.
\<close>

theorem generateSVG_label_verbatim_witness:
  \<open>list_all (\<lambda>e. source e \<in> node_id ` set [start_node, end_node :: nat GraphNode]
                   \<and> target e \<in> node_id ` set [start_node, end_node :: nat GraphNode])
      [edge ''start'' ''end'']
   \<and> generateSVG True decimal \<lparr>nodes = [start_node, end_node],
         edges = [edge ''start'' ''end'']\<rparr> 800 600
     = Inr (''<svg width="800" height="600" xmlns="http://www.w3.org/2000/svg">'' @ svg_style @
       ''<line class="edge" x1="0" y1="0" x2="0" y2="0" data-source="[object Object]" data-target="[object Object]"/>'' @
       ''<circle class="node-start" r="20" cx="0" cy="0" data-id="start"/>'' @
       ''<text class="label" x="0" y="35" text-anchor="middle">Start</text>'' @
       ''<circle class="node-end" r="20" cx="0" cy="0" data-id="end"/>'' @
       ''<text class="label" x="0" y="35" text-anchor="middle">End</text>'' @
       ''</svg>'')
   \<and> generateSVG False decimal \<lparr>nodes = [start_node, end_node],
         edges = [edge ''start'' ''end'']\<rparr> 800 600 = Inl ReferenceError\<close>
proof -
  have d: "decimal 800 = ''800''" "decimal 600 = ''600''" by code_simp+
  have ok: "list_all (\<lambda>e. source e \<in> node_id ` set [start_node, end_node :: nat GraphNode]
                   \<and> target e \<in> node_id ` set [start_node, end_node :: nat GraphNode])
      [edge ''start'' ''end'']"
    by (simp add: edge_def start_node_def end_node_def)
  from generateSVG_label_verbatim [of True
      "\<lparr>nodes = [start_node, end_node], edges = [edge ''start'' ''end'']\<rparr>" decimal 800 600]
    generateSVG_label_verbatim [of False
      "\<lparr>nodes = [start_node, end_node], edges = [edge ''start'' ''end'']\<rparr>" decimal 800 600]
    ok d
  show ?thesis
    by (simp add: svg_open_def svg_circle_def svg_className_def start_node_def end_node_def)
qed

text \<open>The label \<^verbatim>\<open>a<b\<close> reaches the document with its \<^verbatim>\<open><\<close>.\<close>

theorem generateSVG_label_unescaped_counterexample:
  \<open>generateSVG True decimal
     \<lparr>nodes = [\<lparr>node_id = ''s1'', node_label = ''a<b'', node_type = Agent,
                node_latency = None, node_cost = None, node_isBottleneck = None\<rparr>],
      edges = []\<rparr> 800 600
   = Inr (''<svg width="800" height="600" xmlns="http://www.w3.org/2000/svg">'' @ svg_style @
     ''<circle class="node-agent" r="20" cx="0" cy="0" data-id="s1"/>'' @
     ''<text class="label" x="0" y="35" text-anchor="middle">'' @ ''a<b'' @ ''</text></svg>'')
   \<and> \<not> xml_escaped ''a<b''\<close>
proof -
  have "decimal 800 = ''800''" "decimal 600 = ''600''" by code_simp+
  then show ?thesis
    by (simp add: generateSVG_def Let_def svg_open_def svg_className_def svg_circle_def
        svg_text_def)
qed

section \<open>The DOT renderer\<close>

text \<open>
  C9: the DOT text of a workflow's graph starts with \<^verbatim>\<open>digraph workflow {\<close> and ends with
  \<^verbatim>\<open>}\<close> and a newline. Its occurrences of \<^verbatim>\<open>->\<close> are one per edge plus those inside the
  interpolated identifiers and labels; when no step identifier, agent name or dependency
  identifier of the workflow holds \<^verbatim>\<open>->\<close>, there are as many as edges.
\<close>

theorem generateDot_generateGraphData:
  "prefix ''digraph workflow {'' (generateDot (generateGraphData w))
   \<and> suffix ''}\<newline>'' (generateDot (generateGraphData w))
   \<and> arrows (generateDot (generateGraphData w)) =
       length (edges (generateGraphData w)) + interpolated_arrows (generateGraphData w)
   \<and> ((\<forall>s \<in> set (steps w). arrows (step_id s) = 0 \<and> arrows (agentName s) = 0
          \<and> (\<forall>d \<in> set (dependencies s). arrows d = 0)) \<longrightarrow>
       arrows (generateDot (generateGraphData w)) = length (edges (generateGraphData w)))"
  using interpolated_arrows_builder[of w]
  by (simp add: prefix_generateDot suffix_generateDot arrows_generateDot)

theorem generateDot_generateGraphData_witness:
  "list_all (\<lambda>s. arrows (step_id s) = 0 \<and> arrows (agentName s) = 0
      \<and> list_all (\<lambda>d. arrows d = 0) (dependencies s)) (steps fetcher_parser)
   \<and> arrows (generateDot (generateGraphData fetcher_parser)) =
       length (edges (generateGraphData fetcher_parser))"
proof -
  have h: "\<forall>s \<in> set (steps fetcher_parser). arrows (step_id s) = 0 \<and> arrows (agentName s) = 0
      \<and> (\<forall>d \<in> set (dependencies s). arrows d = 0)"
    by (simp add: fetcher_parser_def)
  have l: "list_all (\<lambda>s. arrows (step_id s) = 0 \<and> arrows (agentName s) = 0
      \<and> list_all (\<lambda>d. arrows d = 0) (dependencies s)) (steps fetcher_parser)"
    using h by (simp add: list_all_iff)
  from generateDot_generateGraphData [of fetcher_parser] h l show ?thesis by blast
qed

text \<open>An agent called \<^verbatim>\<open>A->B\<close>: two edges, three occurrences of \<^verbatim>\<open>->\<close>.\<close>

theorem generateDot_arrow_in_label_counterexample:
  "arrows (generateDot (generateGraphData
       \<lparr>workflow_id = ''W'',
        steps = [\<lparr>step_id = ''s1'', agentId = ''a1'', agentName = ''A->B'',
                  dependencies = [], inputTokens = None, outputTokens = None\<rparr>],
        stepAnalysis = (None :: nat StepAnalysis list option)\<rparr>)) = 3
   \<and> length (edges (generateGraphData
       \<lparr>workflow_id = ''W'',
        steps = [\<lparr>step_id = ''s1'', agentId = ''a1'', agentName = ''A->B'',
                  dependencies = [], inputTokens = None, outputTokens = None\<rparr>],
        stepAnalysis = (None :: nat StepAnalysis list option)\<rparr>)) = 2"
  by (simp add: generateDot_def generateGraphData_def Let_def add_agent_nodes_def
      agent_node_def stepAnalysisMap_def analysis_entries_def new_Map_def connect_start_def
      connect_dependencies_def connect_end_def dependentSteps_def push_def edge_def
      start_node_def end_node_def dot_node_line_def dot_edge_line_def dot_attrs_def)

end
